theory Spec2Isabelle
  imports Main
begin

section \<open>Values, jobs and the queueing substrate\<close>

text \<open>
  Python strings are modelled as \<open>string\<close>, read as the sequence of their UTF-8 bytes.
  The JSON-like values that travel through job metadata and status objects are
  \<open>pyval\<close>; a Python \<open>dict\<close> with string keys is a map, so that HOL equality of two
  dictionaries is Python's \<open>==\<close> on them (same keys, equal values, order ignored).
\<close>

datatype pyval =
    PNone
  | PStr string
  | PInt int
  | PDict "string \<Rightarrow> pyval option"

type_synonym pydict = "string \<Rightarrow> pyval option"

datatype py_error =
    TypeError
  | ValueError
  | IndexError
  | KeyError
  | AttributeError
  | OtherError string

text \<open>
  An rq job as the blueprints read it: \<open>job.id\<close>, \<open>job.get_status()\<close>, \<open>job.meta\<close>,
  \<open>job.exc_info\<close>, \<open>job.result\<close> and the positional arguments it was enqueued with.
\<close>

record job =
  job_id :: string
  status :: string
  meta :: pydict
  exc_info :: pyval
  result :: pyval
  args :: "string list"

text \<open>
  The shared state behind \<open>queue\<close> and \<open>failed_queue\<close> of \<open>tasks\<close>: the jobs each
  store can fetch by ID, and the ordered ID list of the queue (\<open>queue.get_job_ids()\<close>).
\<close>

record world =
  queue_jobs :: "string \<Rightarrow> job option"
  failed_jobs :: "string \<Rightarrow> job option"
  job_ids :: "string list"

text \<open>
  \<open>fetch_job\<close> of a store. Its argument is whatever Python value the caller passes:
  \<open>Some i\<close> for a string ID, \<open>None\<close> for Python's \<open>None\<close>. No job is stored under
  \<open>None\<close>, so that lookup finds nothing.
\<close>

definition fetch_job :: "(string \<Rightarrow> job option) \<Rightarrow> string option \<Rightarrow> job option" where
  "fetch_job store key = (case key of None \<Rightarrow> None | Some i \<Rightarrow> store i)"

text \<open>\<open>list.index(x)\<close>: the position of the first occurrence (only called when present).\<close>

fun index_of :: "'a list \<Rightarrow> 'a \<Rightarrow> nat" where
  "index_of [] x = 0"
| "index_of (y # ys) x = (if y = x then 0 else Suc (index_of ys x))"

section \<open>Job status (\<open>blueprints._get_job_status\<close>, \<open>api_task_status\<close>)\<close>

text \<open>Lines 234-246: the status dictionary of a job object.\<close>

definition job_status_dict :: "world \<Rightarrow> job \<Rightarrow> pydict" where
  "job_status_dict w j =
     (let st = status j;
          out0 = [''id'' \<mapsto> PStr (job_id j), ''status'' \<mapsto> PStr st];
          out = (if st \<noteq> ''failed'' then out0 ++ meta j else out0)
      in if st = ''failed'' then out(''traceback'' \<mapsto> exc_info j)
         else if st = ''queued'' then
           out(''position'' \<mapsto>
                 (if job_id j \<in> set (job_ids w)
                  then PInt (int (index_of (job_ids w) (job_id j))) else PNone))
         else if st = ''finished'' then out(''result'' \<mapsto> result j)
         else out)"

text \<open>
  The argument of \<open>_get_job_status\<close> is either an ID string or a job object
  (\<open>isinstance(job, str)\<close>).
\<close>

datatype job_arg = JobId string | JobObj job

text \<open>
  Lines 227-233. The variable \<open>job\<close> is rebound by the first fetch, so the second
  fetch, reached only when the first returned \<open>None\<close>, is \<open>failed_queue.fetch_job(None)\<close>.
\<close>

definition get_job_status :: "world \<Rightarrow> job_arg \<Rightarrow> pydict option" where
  "get_job_status w a =
     (case a of
        JobObj j \<Rightarrow> Some (job_status_dict w j)
      | JobId i \<Rightarrow>
          (let job1 = fetch_job (queue_jobs w) (Some i);
               job2 = (if job1 = None then fetch_job (failed_jobs w) None else job1)
           in case job2 of None \<Rightarrow> None | Some j \<Rightarrow> Some (job_status_dict w j)))"

text \<open>
  An HTTP response: status code, JSON body (\<open>PNone\<close> when there is none) and the headers
  the handler sets. \<open>abort(code)\<close> is the bare response with that code.
\<close>

record response =
  status_code :: nat
  body :: pyval
  headers :: "(string \<times> string) list"

definition abort :: "nat \<Rightarrow> response" where
  "abort c = \<lparr>status_code = c, body = PNone, headers = []\<rparr>"

definition jsonify :: "pyval \<Rightarrow> response" where
  "jsonify v = \<lparr>status_code = 200, body = v, headers = []\<rparr>"

text \<open>Lines 262-268; \<open>if status:\<close> is false for \<open>None\<close> and for an empty dictionary.\<close>

definition api_task_status :: "world \<Rightarrow> string \<Rightarrow> response" where
  "api_task_status w task_id =
     (case get_job_status w (JobId task_id) of
        None \<Rightarrow> abort 404
      | Some d \<Rightarrow> if d = Map.empty then abort 404 else jsonify (PDict d))"

section \<open>The worker's exception handler (\<open>demetsiiify._exception_handler\<close>)\<close>

text \<open>
  What the handler reads of the raised exception: \<open>exc_value.__module__\<close> (\<open>None\<close> when
  reading the attribute raises \<open>AttributeError\<close>), the class name and \<open>exc_value.args\<close>.
\<close>

record exc_value =
  exc_module :: "string option"
  exc_class_name :: string
  exc_args :: "pyval list"

definition typename :: "exc_value \<Rightarrow> string" where
  "typename e =
     (case exc_module e of
        Some m \<Rightarrow> m @ ''.'' @ exc_class_name e
      | None \<Rightarrow> exc_class_name e)"

text \<open>
  Lines 68-77 of \<open>__init__.py\<close>. \<open>exc_value.args[0]\<close> raises \<open>IndexError\<close> on an
  exception without arguments, before \<open>job.meta\<close> is assigned. The result is the job
  record that \<open>job.save()\<close> persists.
\<close>

definition exception_handler :: "job \<Rightarrow> exc_value \<Rightarrow> py_error + job" where
  "exception_handler j e =
     (case exc_args e of
        [] \<Rightarrow> Inl IndexError
      | a # _ \<Rightarrow> Inr (j\<lparr>meta := [''type'' \<mapsto> PStr (typename e), ''message'' \<mapsto> a]\<rparr>))"

section \<open>Strings: \<open>str.split\<close>, \<open>int\<close>, \<open>unquote\<close> and the two regular expressions\<close>

text \<open>\<open>s.split(c)\<close> for a one-character separator: never empty, keeps empty pieces.\<close>

fun split_on :: "char \<Rightarrow> string \<Rightarrow> string list" where
  "split_on c [] = [[]]"
| "split_on c (x # xs) =
     (if x = c then [] # split_on c xs
      else (case split_on c xs of
              [] \<Rightarrow> [[x]]
            | p # ps \<Rightarrow> (x # p) # ps))"

definition endswith :: "string \<Rightarrow> string \<Rightarrow> bool" where
  "endswith s suffix = (length suffix \<le> length s \<and> drop (length s - length suffix) s = suffix)"

definition startswith :: "string \<Rightarrow> string \<Rightarrow> bool" where
  "startswith s pre = (take (length pre) s = pre)"

text \<open>
  ASCII digits, and the whitespace that \<open>int\<close> skips around an ASCII literal: tab,
  line feed, vertical tab, form feed, carriage return and the space.
\<close>

definition is_digit :: "char \<Rightarrow> bool" where
  "is_digit c = (let n = (of_char c :: nat) in 48 \<le> n \<and> n \<le> 57)"

definition digit_val :: "char \<Rightarrow> int" where
  "digit_val c = int (of_char c) - 48"

definition is_space :: "char \<Rightarrow> bool" where
  "is_space c = (let n = (of_char c :: nat) in (9 \<le> n \<and> n \<le> 13) \<or> n = 32)"

definition is_ascii :: "char \<Rightarrow> bool" where
  "is_ascii c = ((of_char c :: nat) < 128)"

definition strip :: "string \<Rightarrow> string" where
  "strip s = rev (dropWhile is_space (rev (dropWhile is_space s)))"

text \<open>
  The digits of an integer literal after its first digit: digits, with single
  underscores allowed between two digits.
\<close>

fun int_digits :: "int \<Rightarrow> string \<Rightarrow> int option" where
  "int_digits acc [] = Some acc"
| "int_digits acc (c # cs) =
     (if is_digit c then int_digits (acc * 10 + digit_val c) cs
      else if c = CHR ''_'' then
        (case cs of
           [] \<Rightarrow> None
         | d # ds \<Rightarrow> if is_digit d then int_digits (acc * 10 + digit_val d) ds else None)
      else None)"

definition int_unsigned :: "string \<Rightarrow> int option" where
  "int_unsigned s =
     (case s of
        [] \<Rightarrow> None
      | d # ds \<Rightarrow> if is_digit d then int_digits (digit_val d) ds else None)"

text \<open>
  Python's \<open>int(s)\<close> on a string. A string with a character outside ASCII is first
  rewritten by the interpreter, which turns every Unicode decimal digit and every
  Unicode space into its ASCII counterpart; that rewriting is the parameter
  \<open>to_ascii\<close>, and an ASCII string is taken as it is. Then surrounding whitespace is
  skipped, one sign is allowed, and a decimal literal must follow; anything else
  raises \<open>ValueError\<close>.
\<close>

definition py_int :: "(string \<Rightarrow> string) \<Rightarrow> string \<Rightarrow> py_error + int" where
  "py_int to_ascii s =
     (let a = (if list_all is_ascii s then s else to_ascii s);
          t = strip a;
          r = (case t of
                 [] \<Rightarrow> None
               | c # cs \<Rightarrow>
                   if c = CHR ''-'' then map_option uminus (int_unsigned cs)
                   else if c = CHR ''+'' then int_unsigned cs
                   else int_unsigned t)
      in case r of None \<Rightarrow> Inl ValueError | Some n \<Rightarrow> Inr n)"

text \<open>\<open>[int(p) for p in parts]\<close>: the first failing conversion raises.\<close>

fun int_all :: "(string \<Rightarrow> string) \<Rightarrow> string list \<Rightarrow> py_error + int list" where
  "int_all to_ascii [] = Inr []"
| "int_all to_ascii (p # ps) =
     (case py_int to_ascii p of
        Inl e \<Rightarrow> Inl e
      | Inr n \<Rightarrow> (case int_all to_ascii ps of Inl e \<Rightarrow> Inl e | Inr ns \<Rightarrow> Inr (n # ns)))"

text \<open>
  \<open>urllib.parse.unquote_to_bytes\<close>: \<open>%\<close> followed by two hexadecimal digits is
  replaced by the byte they denote, every other character is kept.
\<close>

definition hex_val :: "char \<Rightarrow> nat option" where
  "hex_val c =
     (let n = (of_char c :: nat)
      in if 48 \<le> n \<and> n \<le> 57 then Some (n - 48)
         else if 65 \<le> n \<and> n \<le> 70 then Some (n - 55)
         else if 97 \<le> n \<and> n \<le> 102 then Some (n - 87)
         else None)"

fun unquote_to_bytes :: "string \<Rightarrow> string" where
  "unquote_to_bytes (c # a # b # rest) =
     (if c = CHR ''%'' then
        (case (hex_val a, hex_val b) of
           (Some h, Some l) \<Rightarrow> char_of (16 * h + l) # unquote_to_bytes rest
         | _ \<Rightarrow> c # unquote_to_bytes (a # b # rest))
      else c # unquote_to_bytes (a # b # rest))"
| "unquote_to_bytes cs = cs"

text \<open>
  \<open>bytes.decode('utf-8', 'replace')\<close>, with the result again read as UTF-8 bytes:
  ASCII bytes decode to themselves; for anything else the decoder, which replaces
  every invalid sequence by U+FFFD, is the parameter \<open>decode\<close>.
\<close>

definition utf8_replace :: "(string \<Rightarrow> string) \<Rightarrow> string \<Rightarrow> string" where
  "utf8_replace decode bs = (if list_all is_ascii bs then bs else decode bs)"

text \<open>
  \<open>urllib.parse.unquote\<close>: the string is cut into its runs of ASCII characters and
  the runs in between; each ASCII run is unquoted to bytes and decoded, the other
  runs are kept.
\<close>

function unquote :: "(string \<Rightarrow> string) \<Rightarrow> string \<Rightarrow> string" where
  "unquote decode s =
     (case s of
        [] \<Rightarrow> []
      | c # cs \<Rightarrow>
          if is_ascii c then
            utf8_replace decode (unquote_to_bytes (c # takeWhile is_ascii cs))
              @ unquote decode (dropWhile is_ascii cs)
          else
            c # takeWhile (\<lambda>x. \<not> is_ascii x) cs
              @ unquote decode (dropWhile (\<lambda>x. \<not> is_ascii x) cs))"
  by pat_completeness auto
termination
proof (relation "measure (\<lambda>(decode, s). length s)")
  show "wf (measure (\<lambda>(decode, s). length s))" by simp
next
  fix decode :: "string \<Rightarrow> string" and s :: string and c cs
  assume "s = c # cs"
  then show "((decode, dropWhile is_ascii cs), decode, s) \<in> measure (\<lambda>(decode, s). length s)"
    by (simp add: length_dropWhile_le less_Suc_eq_le)
next
  fix decode :: "string \<Rightarrow> string" and s :: string and c cs
  assume "s = c # cs"
  then show "((decode, dropWhile (\<lambda>x. \<not> is_ascii x) cs), decode, s)
      \<in> measure (\<lambda>(decode, s). length s)"
    by (simp add: length_dropWhile_le less_Suc_eq_le)
qed

declare unquote.simps [simp del]

text \<open>
  Both patterns of \<open>_extract_mets_from_dfgviewer\<close> have the shape
  \<open>lit(http C+)\<close> with a literal \<open>lit\<close> and a character class \<open>C\<close>.
  \<open>match_here\<close> is a match of that shape at the very start of \<open>s\<close>, returning the
  group: the class is matched greedily and must match at least once.
\<close>

definition match_here :: "string \<Rightarrow> (char \<Rightarrow> bool) \<Rightarrow> string \<Rightarrow> string option" where
  "match_here lit ok s =
     (if take (length lit + 4) s = lit @ ''http''
      then (case takeWhile ok (drop (length lit + 4) s) of
              [] \<Rightarrow> None
            | v # vs \<Rightarrow> Some (''http'' @ v # vs))
      else None)"

text \<open>
  \<open>re.findall\<close>: the groups of all non-overlapping matches, scanning from the left;
  after a match the scan resumes behind it.
\<close>

function findall :: "string \<Rightarrow> (char \<Rightarrow> bool) \<Rightarrow> string \<Rightarrow> string list" where
  "findall lit ok s =
     (case match_here lit ok s of
        Some g \<Rightarrow> g # findall lit ok (drop (length lit + length g) s)
      | None \<Rightarrow> (case s of [] \<Rightarrow> [] | _ # t \<Rightarrow> findall lit ok t))"
  by pat_completeness auto
termination
proof (relation "measure (\<lambda>(lit, ok, s). length s)")
  show "wf (measure (\<lambda>(lit, ok, s). length s))" by simp
next
  fix lit :: string and ok :: "char \<Rightarrow> bool" and s g :: string
  assume m: "match_here lit ok s = Some g"
  from m have "take (length lit + 4) s = lit @ ''http''"
    by (simp add: match_here_def split: if_splits)
  then have "length (take (length lit + 4) s) = length lit + 4" by simp
  then have "s \<noteq> []" by auto
  moreover from m have "0 < length g"
    by (auto simp: match_here_def split: if_splits list.splits)
  ultimately show "((lit, ok, drop (length lit + length g) s), lit, ok, s)
      \<in> measure (\<lambda>(lit, ok, s). length s)"
    by simp
next
  fix lit :: string and ok :: "char \<Rightarrow> bool" and s :: string and x t
  assume "s = x # t"
  then show "((lit, ok, t), lit, ok, s) \<in> measure (\<lambda>(lit, ok, s). length s)" by simp
qed

text \<open>\<open>[^&]\<close> and \<open>.\<close> (any character but the newline).\<close>

definition not_amp :: "char \<Rightarrow> bool" where
  "not_amp c = (c \<noteq> CHR ''&'')"

definition not_newline :: "char \<Rightarrow> bool" where
  "not_newline c = (c \<noteq> CHR 0x0A)"

text \<open>Lines 181-189; \<open>decode\<close> is the UTF-8 decoder that \<open>unquote\<close> uses.\<close>

definition extract_mets_from_dfgviewer :: "(string \<Rightarrow> string) \<Rightarrow> string \<Rightarrow> string option" where
  "extract_mets_from_dfgviewer decode url =
     (let url' = unquote decode url;
          mets_url = findall ''set[mets]='' not_amp url';
          mets_url = (if mets_url = [] then findall ''tx_dlf[id]='' not_newline url'
                      else mets_url)
      in case mets_url of [] \<Rightarrow> None | u # _ \<Rightarrow> Some u)"

text \<open>
  \<open>re.match(r'https?://dfg-viewer.de/show/.*?', s)\<close>: a match at the start of \<open>s\<close>. The
  dot between \<open>dfg-viewer\<close> and \<open>de\<close> is unescaped and matches any character but the
  newline; the trailing lazy \<open>.*?\<close> matches the empty string.
\<close>

definition dfgviewer_tail :: "string \<Rightarrow> bool" where
  "dfgviewer_tail r =
     (take 13 r = ''://dfg-viewer'' \<and>
      (case drop 13 r of
         [] \<Rightarrow> False
       | c # t \<Rightarrow> not_newline c \<and> take 8 t = ''de/show/''))"

definition dfgviewer_match :: "string \<Rightarrow> bool" where
  "dfgviewer_match s =
     (take 4 s = ''http'' \<and>
      (let r = drop 4 s
       in dfgviewer_tail (if take 1 r = ''s'' then drop 1 r else r)))"

declare findall.simps [simp del]

section \<open>Import requests (\<open>blueprints.api_import\<close>)\<close>

text \<open>
  What \<open>_get_basic_info\<close> reads of the parsed METS document: the label made from its
  metadata, the \<open>image/jpeg\<close> and \<open>image/jpg\<close> file locations, and the logo and
  attribution entries of its metadata.
\<close>

record mets_doc =
  label :: string
  jpeg_urls :: "string list"
  jpg_urls :: "string list"
  logo :: pyval
  attribution :: pyval

text \<open>The outcome of \<open>requests.head\<close>: it raises, or returns a response with a status code.\<close>

datatype head_result = HeadRaised | HeadResponse nat

text \<open>
  The collaborators of the import handler that are not part of the blueprints:
  the HTTP client, the METS reader behind \<open>ET.parse\<close> and \<open>mets.MetsDocument\<close> (which
  may raise), \<open>traceback.format_exc\<close>, the external URL prefix used by \<open>url_for\<close>,
  the ID the queue gives to the next job, and the UTF-8 decoder behind \<open>unquote\<close>.
\<close>

record env =
  head :: "string \<Rightarrow> head_result"
  read_mets :: "string \<Rightarrow> py_error + mets_doc"
  format_exc :: "py_error \<Rightarrow> string"
  server_url :: string
  new_job_id :: string
  utf8_decode :: "string \<Rightarrow> string"

text \<open>
  \<open>requests.head(mets_url)\<close> under the bare \<open>except\<close> of lines 209-212. A \<open>None\<close>
  argument is no URL: the client raises before any request is made.
\<close>

definition probe :: "env \<Rightarrow> string option \<Rightarrow> head_result" where
  "probe e mets_url = (case mets_url of None \<Rightarrow> HeadRaised | Some u \<Rightarrow> head e u)"

text \<open>
  \<open>not resp\<close>: \<open>resp\<close> is still \<open>None\<close> after a raise, and a response is false when its
  status code is an error code (400 to 599).
\<close>

definition probe_ok :: "head_result \<Rightarrow> bool" where
  "probe_ok r = (case r of HeadRaised \<Rightarrow> False | HeadResponse c \<Rightarrow> \<not> (400 \<le> c \<and> c < 600))"

text \<open>Lines 161-178.\<close>

definition get_basic_info :: "env \<Rightarrow> string \<Rightarrow> py_error + pydict" where
  "get_basic_info e mets_url =
     (case read_mets e mets_url of
        Inl err \<Rightarrow> Inl err
      | Inr doc \<Rightarrow>
          (let thumb_urls = (if jpeg_urls doc = [] then jpg_urls doc else jpeg_urls doc)
           in Inr [''metsurl'' \<mapsto> PStr mets_url,
                   ''label'' \<mapsto> PStr (label doc),
                   ''thumbnail'' \<mapsto> (case thumb_urls of [] \<Rightarrow> PNone | t # _ \<Rightarrow> PStr t),
                   ''attribution'' \<mapsto>
                      PDict [''logo'' \<mapsto> logo doc, ''owner'' \<mapsto> attribution doc]]))"

text \<open>
  \<open>queue.enqueue(import_mets_job, mets_url, meta=job_meta)\<close>: a new queued job at the
  end of the queue's ID list.
\<close>

definition enqueue :: "world \<Rightarrow> string \<Rightarrow> string \<Rightarrow> pydict \<Rightarrow> job \<times> world" where
  "enqueue w jid mets_url job_meta =
     (let j = \<lparr>job_id = jid, status = ''queued'', meta = job_meta,
                exc_info = PNone, result = PNone, args = [mets_url]\<rparr>
      in (j, w\<lparr>queue_jobs := (queue_jobs w)(jid \<mapsto> j), job_ids := job_ids w @ [jid]\<rparr>))"

text \<open>\<open>url_for('api.api_task_status', task_id=..., _external=True)\<close> for the route
  \<open>/api/tasks/<task_id>\<close>.\<close>

definition url_for_task_status :: "env \<Rightarrow> string \<Rightarrow> string" where
  "url_for_task_status e task_id = server_url e @ ''/api/tasks/'' @ task_id"

text \<open>Lines 40-44: the error handler of the \<open>api\<close> blueprint.\<close>

definition handle_error :: "env \<Rightarrow> py_error \<Rightarrow> response" where
  "handle_error e err =
     \<lparr>status_code = 500, body = PDict [''traceback'' \<mapsto> PStr (format_exc e err)], headers = []\<rparr>"

definition no_mets_response :: response where
  "no_mets_response =
     \<lparr>status_code = 400,
      body = PDict [''message'' \<mapsto> PStr ''There is no METS available at the given URL.''],
      headers = []\<rparr>"

text \<open>
  Lines 208-224, for the URL that lines 205-207 have settled on. The job is read back
  with \<open>job.refresh()\<close> as it was stored. \<open>_get_basic_info(None)\<close> would raise
  \<open>TypeError\<close>, but a \<open>None\<close> URL never passes the probe.
\<close>

definition import_mets :: "env \<Rightarrow> world \<Rightarrow> string option \<Rightarrow> response \<times> world" where
  "import_mets e w mets_url =
     (if \<not> probe_ok (probe e mets_url) then (no_mets_response, w)
      else case mets_url of
        None \<Rightarrow> (handle_error e TypeError, w)
      | Some u \<Rightarrow>
          (case get_basic_info e u of
             Inl err \<Rightarrow> (handle_error e err, w)
           | Inr job_meta \<Rightarrow>
               (let (j, w') = enqueue w (new_job_id e) u job_meta;
                    status_url = url_for_task_status e (job_id j)
                in (\<lparr>status_code = 202,
                     body = (case get_job_status w' (JobId (job_id j)) of
                               None \<Rightarrow> PNone
                             | Some d \<Rightarrow> PDict d),
                     headers = [(''Location'', status_url)]\<rparr>, w'))))"

text \<open>
  Lines 206-207: a URL of a DFG-Viewer page is replaced by the METS URL extracted
  from it (\<open>None\<close> when there is none); any other URL is taken as it is.
\<close>

definition import_target :: "(string \<Rightarrow> string) \<Rightarrow> string \<Rightarrow> string option" where
  "import_target decode url =
     (if dfgviewer_match url then extract_mets_from_dfgviewer decode url else Some url)"

text \<open>
  Lines 205-224. The argument is the parsed JSON body of the request: \<open>.get\<close> on
  anything but an object raises \<open>AttributeError\<close>, and \<open>re.match\<close> on anything but a
  string raises \<open>TypeError\<close>; both end in the blueprint's error handler.
\<close>

definition api_import :: "env \<Rightarrow> world \<Rightarrow> pyval \<Rightarrow> response \<times> world" where
  "api_import e w request_json =
     (case request_json of
        PDict d \<Rightarrow>
          (case (case d ''url'' of None \<Rightarrow> PNone | Some v \<Rightarrow> v) of
             PStr url \<Rightarrow> import_mets e w (import_target (utf8_decode e) url)
           | _ \<Rightarrow> (handle_error e TypeError, w))
      | _ \<Rightarrow> (handle_error e AttributeError, w))"

section \<open>The live stream (\<open>blueprints.sse_stream\<close>)\<close>

text \<open>
  The generator's local state. \<open>None\<close> is Python's \<open>None\<close> in both fields; a status is
  \<open>None\<close> when \<open>_get_job_status\<close> returned \<open>None\<close>.
\<close>

record gen_state =
  last_status :: "pydict option"
  last_id :: "string option"

text \<open>
  One iteration of the loop of lines 295-306, for a message on \<open>channel\<close> processed when
  the shared state is \<open>w\<close>. The result is the error raised, or the new state together
  with the status yielded, if any (the event's data is the JSON encoding of that
  status). Subscripting \<open>last_status\<close> raises \<open>TypeError\<close> when it is \<open>None\<close>.
\<close>

definition gen_step ::
  "string \<Rightarrow> gen_state \<Rightarrow> string \<times> world \<Rightarrow> py_error + (gen_state \<times> pydict option option)" where
  "gen_step task_id s msg =
     (let cur_id = last (split_on CHR '':'' (fst msg));
          skip =
            (if Some cur_id = last_id s then
               (case last_status s of
                  None \<Rightarrow> Inl TypeError
                | Some d \<Rightarrow>
                    (case d ''status'' of
                       None \<Rightarrow> Inl KeyError
                     | Some v \<Rightarrow> Inr (v \<noteq> PStr ''started'')))
             else Inr False)
      in case skip of
           Inl err \<Rightarrow> Inl err
         | Inr True \<Rightarrow> Inr (s, None)
         | Inr False \<Rightarrow>
             (let s1 = s\<lparr>last_id := Some cur_id\<rparr>;
                  st = get_job_status (snd msg) (JobId task_id)
              in if st = last_status s then Inr (s1, None)
                 else Inr (s1\<lparr>last_status := st\<rparr>, Some st)))"

text \<open>
  The generator run on the messages received so far: the statuses yielded in order,
  and either the error that ended it or the state in which it waits for the next
  message. The loop has no \<open>break\<close> and no \<open>return\<close>.
\<close>

fun gen_loop ::
  "string \<Rightarrow> gen_state \<Rightarrow> (string \<times> world) list \<Rightarrow> pydict option list \<times> (py_error + gen_state)" where
  "gen_loop task_id s [] = ([], Inr s)"
| "gen_loop task_id s (m # ms) =
     (case gen_step task_id s m of
        Inl err \<Rightarrow> ([], Inl err)
      | Inr (s', ev) \<Rightarrow>
          (let (evs, r) = gen_loop task_id s' ms
           in ((case ev of None \<Rightarrow> evs | Some st \<Rightarrow> st # evs), r)))"

definition gen :: "string \<Rightarrow> (string \<times> world) list \<Rightarrow> pydict option list \<times> (py_error + gen_state)" where
  "gen task_id msgs = gen_loop task_id \<lparr>last_status = None, last_id = None\<rparr> msgs"

text \<open>Lines 278-284 and 307: the stream is opened only for a job one of the stores knows.\<close>

definition sse_stream ::
  "world \<Rightarrow> string \<Rightarrow> (string \<times> world) list
     \<Rightarrow> response + pydict option list \<times> (py_error + gen_state)" where
  "sse_stream w task_id msgs =
     (let job1 = fetch_job (queue_jobs w) (Some task_id);
          job2 = (if job1 = None then fetch_job (failed_jobs w) (Some task_id) else job1)
      in if job2 = None then Inl (abort 404) else Inr (gen task_id msgs))"

section \<open>The IIIF Image API redirect (\<open>blueprints.get_image\<close>)\<close>

text \<open>
  The keyword arguments passed to \<open>get_image_url\<close>: \<open>format_kw\<close> stands for the
  keyword \<open>format_\<close>, which is always passed (and is \<open>None\<close> for an unknown
  extension); \<open>width\<close> and \<open>height\<close> are \<open>None\<close> when the key is not in the
  dictionary.
\<close>

record query =
  format_kw :: "string option"
  width :: "int option"
  height :: "int option"

text \<open>
  Lines 445-452: the resize parameters of a size string, or the exception raised;
  \<open>to_ascii\<close> is the parameter of \<open>py_int\<close>.
\<close>

definition resolve_size ::
  "(string \<Rightarrow> string) \<Rightarrow> string \<Rightarrow> py_error + int option \<times> int option" where
  "resolve_size to_ascii sz =
     (if sz = ''full'' \<or> sz = ''max'' then Inr (None, None)
      else
        (let parts = filter (\<lambda>v. v \<noteq> []) (split_on CHR '','' sz)
         in if endswith sz '','' then
              (case parts of
                 [] \<Rightarrow> Inl IndexError
               | p # _ \<Rightarrow>
                   (case py_int to_ascii p of Inl e \<Rightarrow> Inl e | Inr n \<Rightarrow> Inr (Some n, None)))
            else if startswith sz '','' then
              (case parts of
                 [] \<Rightarrow> Inl IndexError
               | p # _ \<Rightarrow>
                   (case py_int to_ascii p of Inl e \<Rightarrow> Inl e | Inr n \<Rightarrow> Inr (None, Some n)))
            else
              (case int_all to_ascii parts of
                 Inl e \<Rightarrow> Inl e
               | Inr ns \<Rightarrow>
                   (case ns of
                      [a, b] \<Rightarrow> Inr (Some a, Some b)
                    | _ \<Rightarrow> Inl ValueError))))"

definition redirect :: "string \<Rightarrow> nat \<Rightarrow> response" where
  "redirect url c = \<lparr>status_code = c, body = PNone, headers = [(''Location'', url)]\<rparr>"

text \<open>Lines 71-81: the decorator adds its header to the response the view returns.\<close>

definition cors :: "string \<Rightarrow> response \<Rightarrow> response" where
  "cors origin resp =
     resp\<lparr>headers := headers resp @ [(''Access-Control-Allow-Origin'', origin)]\<rparr>"

text \<open>
  Lines 430-457. \<open>images\<close> is \<open>IIIFImage.get\<close>, \<open>get_image_url\<close> the method of the image
  it returns, \<open>types_map\<close> is \<open>mimetypes.types_map\<close>, \<open>to_ascii\<close> the parameter of
  \<open>py_int\<close>. An \<open>abort\<close> and an uncaught
  exception leave the view before the decorator adds its header; the \<open>iiif\<close> blueprint
  has no error handler, so an uncaught exception is the framework's plain 500.
\<close>

definition get_image ::
  "(string \<Rightarrow> 'img option) \<Rightarrow> ('img \<Rightarrow> query \<Rightarrow> string option) \<Rightarrow> (string \<Rightarrow> string option)
     \<Rightarrow> (string \<Rightarrow> string)
     \<Rightarrow> string \<Rightarrow> string \<Rightarrow> string \<Rightarrow> string \<Rightarrow> string \<Rightarrow> string \<Rightarrow> response" where
  "get_image images get_image_url types_map to_ascii image_id region sz rotation quality fmt =
     (let not_supported =
            (region \<noteq> ''full'' \<or> rotation \<noteq> ''0''
             \<or> \<not> (quality = ''default'' \<or> quality = ''native''))
      in if not_supported then abort 501
         else case images image_id of
           None \<Rightarrow> abort 404
         | Some iiif_image \<Rightarrow>
             (case resolve_size to_ascii sz of
                Inl err \<Rightarrow> abort 500
              | Inr (w, h) \<Rightarrow>
                  (case get_image_url iiif_image
                          \<lparr>format_kw = types_map (''.'' @ fmt), width = w, height = h\<rparr> of
                     None \<Rightarrow> abort 501
                   | Some url \<Rightarrow> cors ''*'' (redirect url 303))))"

section \<open>Reference notions and example inputs\<close>

text \<open>
  A decimal number as the size grammar writes it (one or more ASCII digits), and the
  integer it denotes.
\<close>

definition is_number :: "string \<Rightarrow> bool" where
  "is_number s = (s \<noteq> [] \<and> list_all is_digit s)"

definition decimal_value :: "string \<Rightarrow> int" where
  "decimal_value s = foldl (\<lambda>a c. a * 10 + digit_val c) 0 s"

text \<open>
  Concrete jobs, a concrete shared state and two exceptions: an instance of the
  built-in \<open>ValueError\<close>, on which reading \<open>__module__\<close> raises \<open>AttributeError\<close>, and
  an instance of a class defined in a module of the application.
\<close>

definition ex_job :: job where
  "ex_job = \<lparr>job_id = ''b'', status = ''queued'', meta = [''label'' \<mapsto> PStr ''Doc''],
             exc_info = PNone, result = PNone, args = [''http://example.org/doc.xml'']\<rparr>"

definition ex_failed_job :: job where
  "ex_failed_job = \<lparr>job_id = ''f1'', status = ''failed'',
             meta = [''type'' \<mapsto> PStr ''ValueError'', ''message'' \<mapsto> PStr ''bad METS''],
             exc_info = PStr ''Traceback (most recent call last): ...'', result = PNone,
             args = [''http://example.org/doc.xml'']\<rparr>"

definition ex_world :: world where
  "ex_world = \<lparr>queue_jobs = [''b'' \<mapsto> ex_job], failed_jobs = [''f1'' \<mapsto> ex_failed_job],
               job_ids = [''a'', ''b'', ''c'']\<rparr>"

definition ex_exc :: exc_value where
  "ex_exc = \<lparr>exc_module = None, exc_class_name = ''ValueError'',
             exc_args = [PStr ''bad METS'']\<rparr>"

definition ex_exc_mets :: exc_value where
  "ex_exc_mets = \<lparr>exc_module = Some ''demetsiiify.mets'', exc_class_name = ''MetsImportError'',
             exc_args = [PStr ''no structMap'', PInt 3]\<rparr>"

text \<open>
  Stand-ins for the interpreter's rewriting of non-ASCII digits and for the UTF-8
  decoder; neither is consulted on the ASCII inputs of the examples below.
\<close>

definition ex_to_ascii :: "string \<Rightarrow> string" where
  "ex_to_ascii s = s"

definition ex_decode :: "string \<Rightarrow> string" where
  "ex_decode bs = bs"

text \<open>An image store with one image, a URL builder and a one-entry MIME table.\<close>

definition ex_images :: "string \<Rightarrow> string option" where
  "ex_images = [''img1'' \<mapsto> ''http://images.example.org/img1'']"

definition ex_get_image_url :: "string \<Rightarrow> query \<Rightarrow> string option" where
  "ex_get_image_url base q =
     (case format_kw q of
        None \<Rightarrow> None
      | Some f \<Rightarrow> Some (base @ (case width q of None \<Rightarrow> ''/full'' | Some _ \<Rightarrow> ''/scaled'')))"

definition ex_types_map :: "string \<Rightarrow> string option" where
  "ex_types_map = [''.jpg'' \<mapsto> ''image/jpeg'']"

text \<open>
  A finished job, a state that holds it, a state from which it has expired, its
  status object, and the keyspace channel on which changes of a job key are announced
  (the pattern of line 289 with the job ID in place of the star).
\<close>

definition ex_finished_job :: job where
  "ex_finished_job = \<lparr>job_id = ''j1'', status = ''finished'', meta = [''label'' \<mapsto> PStr ''Doc''],
             exc_info = PNone, result = PStr ''manifest-1'',
             args = [''http://example.org/doc.xml'']\<rparr>"

definition ex_world_finished :: world where
  "ex_world_finished = \<lparr>queue_jobs = [''j1'' \<mapsto> ex_finished_job], failed_jobs = Map.empty,
               job_ids = [''j2'']\<rparr>"

definition ex_world_expired :: world where
  "ex_world_expired = \<lparr>queue_jobs = Map.empty, failed_jobs = Map.empty, job_ids = []\<rparr>"

definition ex_finished_status :: pydict where
  "ex_finished_status = [''id'' \<mapsto> PStr ''j1'', ''status'' \<mapsto> PStr ''finished'',
       ''label'' \<mapsto> PStr ''Doc'', ''result'' \<mapsto> PStr ''manifest-1'']"

definition chan :: "string \<Rightarrow> string" where
  "chan i = ''__keyspace@0__:rq:job:'' @ i"

text \<open>A METS document, an environment in which one URL serves it, one serves
  something that is no METS, one is missing and every other one is unreachable, and
  three DFG-Viewer URLs: one with an escaped \<open>set[mets]\<close> parameter, one with a
  \<open>tx_dlf[id]\<close> parameter and one with neither.\<close>

definition ex_doc :: mets_doc where
  "ex_doc = \<lparr>label = ''Doc'', jpeg_urls = [''http://example.org/1.jpg''], jpg_urls = [],
             logo = PStr ''http://example.org/logo.png'', attribution = PStr ''Example Library''\<rparr>"

definition ex_env :: env where
  "ex_env = \<lparr>head = (\<lambda>u. if u = ''http://example.org/doc.xml'' \<or> u = ''http://example.org/page.html''
                          then HeadResponse 200
                          else if u = ''http://example.org/missing.xml'' then HeadResponse 404
                          else HeadRaised),
             read_mets = (\<lambda>u. if u = ''http://example.org/doc.xml'' then Inr ex_doc
                               else Inl (OtherError ''XMLSyntaxError'')),
             format_exc = (\<lambda>e. ''Traceback (most recent call last): ...''),
             server_url = ''http://localhost:5000'',
             new_job_id = ''n1'',
             utf8_decode = ex_decode\<rparr>"




section \<open>Properties of the job status\<close>

lemma index_of_less: "x \<in> set xs \<Longrightarrow> index_of xs x < length xs"
  by (induction xs) auto

lemma index_of_nth: "x \<in> set xs \<Longrightarrow> xs ! index_of xs x = x"
  by (induction xs) auto

lemma index_of_first: "i < index_of xs x \<Longrightarrow> xs ! i \<noteq> x"
proof (induction xs arbitrary: i)
  case Nil
  then show ?case by simp
next
  case (Cons y ys)
  then show ?case by (cases i) (auto split: if_splits)
qed

lemma job_status_dict_nonempty: "job_status_dict w j \<noteq> Map.empty"
proof
  assume "job_status_dict w j = Map.empty"
  then have "job_status_dict w j ''id'' = None" by simp
  then show False
    by (simp add: job_status_dict_def Let_def map_add_def split: if_splits option.splits)
qed

lemma position_queued:
  "status j = ''queued'' \<Longrightarrow>
     job_status_dict w j ''position'' =
       Some (if job_id j \<in> set (job_ids w)
             then PInt (int (index_of (job_ids w) (job_id j))) else PNone)"
  by (simp add: job_status_dict_def Let_def)

lemma position_not_queued:
  "status j \<noteq> ''queued'' \<Longrightarrow>
     job_status_dict w j ''position'' = (if status j = ''failed'' then None else meta j ''position'')"
  by (simp add: job_status_dict_def Let_def map_add_def split: option.splits)

lemma get_basic_info_keys:
  "get_basic_info e u = Inr m \<Longrightarrow> dom m = {''metsurl'', ''label'', ''thumbnail'', ''attribution''}"
  by (auto simp: get_basic_info_def Let_def split: sum.splits if_splits)

lemma exception_handler_keys:
  "exception_handler j x = Inr j' \<Longrightarrow> dom (meta j') = {''type'', ''message''}"
  by (auto simp: exception_handler_def split: list.splits if_splits)

lemma failed_status_keys:
  "status j = ''failed'' \<Longrightarrow> dom (job_status_dict w j) = {''id'', ''status'', ''traceback''}"
  by (auto simp: job_status_dict_def Let_def split: if_splits)

text \<open>
  C1, at a job that only the failure store knows: the first fetch returns \<open>None\<close>, the
  second fetch is made with that \<open>None\<close> instead of the task ID, and the endpoint
  answers 404 although the failure store holds the job.
\<close>

theorem api_task_status_failed_store_only:
  "failed_jobs ex_world ''f1'' = Some ex_failed_job
   \<and> queue_jobs ex_world ''f1'' = None
   \<and> api_task_status ex_world ''f1'' = abort 404"
  by (simp add: api_task_status_def get_job_status_def fetch_job_def ex_world_def)

text \<open>
  In general the endpoint answers 404 exactly for the IDs unknown to the active
  store, whatever the failure store holds.
\<close>

lemma api_task_status_404_iff:
  "api_task_status w task_id = abort 404 \<longleftrightarrow> queue_jobs w task_id = None"
proof (cases "queue_jobs w task_id")
  case None
  then show ?thesis
    by (simp add: api_task_status_def get_job_status_def fetch_job_def)
next
  case (Some j)
  then show ?thesis
    by (simp add: api_task_status_def get_job_status_def fetch_job_def job_status_dict_nonempty
        jsonify_def abort_def)
qed

text \<open>
  The stream endpoint looks the same job up with the task ID in both stores and
  does not answer 404 for it.
\<close>

lemma sse_stream_failed_store_only: "sse_stream ex_world ''f1'' [] = Inr (gen ''f1'' [])"
  by (simp add: sse_stream_def fetch_job_def ex_world_def)

text \<open>
  C2 as stated fails: after the handler has attached the descriptor to the job, the
  status object of the failed job has neither a \<open>type\<close> nor a \<open>message\<close> field.
\<close>

theorem failed_status_without_descriptor:
  "exception_handler (ex_failed_job\<lparr>status := ''started'', meta := Map.empty\<rparr>) ex_exc
     = Inr (ex_failed_job\<lparr>status := ''started''\<rparr>)
   \<and> job_status_dict ex_world ex_failed_job ''type'' = None
   \<and> job_status_dict ex_world ex_failed_job ''message'' = None"
  by (simp add: exception_handler_def ex_exc_def ex_failed_job_def job_status_dict_def typename_def)

text \<open>
  C2, amended: for an exception that carries at least one argument, the handler
  replaces the job's metadata by the descriptor: \<open>message\<close> is the first argument and
  \<open>type\<close> is the type name, which is the module and the class name joined by a dot
  when the exception has a module attribute, and the bare class name when it has
  none. The status object of a failed job has exactly the fields \<open>id\<close>, \<open>status\<close>
  and \<open>traceback\<close>: the metadata is merged only into the status of jobs that have not
  failed.
\<close>

theorem exception_handler_descriptor:
  "exc_args x = a # rest \<longrightarrow>
     (\<forall>m. exc_module x = Some m \<longrightarrow>
        exception_handler j x =
          Inr (j\<lparr>meta := [''type'' \<mapsto> PStr (m @ ''.'' @ exc_class_name x), ''message'' \<mapsto> a]\<rparr>))
     \<and> (exc_module x = None \<longrightarrow>
        exception_handler j x =
          Inr (j\<lparr>meta := [''type'' \<mapsto> PStr (exc_class_name x), ''message'' \<mapsto> a]\<rparr>))
     \<and> (\<forall>w jf. status jf = ''failed'' \<longrightarrow>
           dom (job_status_dict w jf) = {''id'', ''status'', ''traceback''}
           \<and> job_status_dict w jf ''traceback'' = Some (exc_info jf))"
proof (intro impI conjI allI)
  fix m
  assume "exc_args x = a # rest" and "exc_module x = Some m"
  then show "exception_handler j x =
      Inr (j\<lparr>meta := [''type'' \<mapsto> PStr (m @ ''.'' @ exc_class_name x), ''message'' \<mapsto> a]\<rparr>)"
    by (simp add: exception_handler_def typename_def)
next
  assume "exc_args x = a # rest" and "exc_module x = None"
  then show "exception_handler j x =
      Inr (j\<lparr>meta := [''type'' \<mapsto> PStr (exc_class_name x), ''message'' \<mapsto> a]\<rparr>)"
    by (simp add: exception_handler_def typename_def)
next
  fix w :: world and jf :: job
  assume "status jf = ''failed''"
  then show "dom (job_status_dict w jf) = {''id'', ''status'', ''traceback''}"
    by (rule failed_status_keys)
next
  fix w :: world and jf :: job
  assume "status jf = ''failed''"
  then show "job_status_dict w jf ''traceback'' = Some (exc_info jf)"
    by (simp add: job_status_dict_def)
qed

theorem exception_handler_descriptor_witness:
  "exc_args ex_exc = [PStr ''bad METS''] \<and> exc_module ex_exc = None
   \<and> exception_handler ex_job ex_exc
       = Inr (ex_job\<lparr>meta := [''type'' \<mapsto> PStr ''ValueError'', ''message'' \<mapsto> PStr ''bad METS'']\<rparr>)
   \<and> exc_args ex_exc_mets = [PStr ''no structMap'', PInt 3]
   \<and> exc_module ex_exc_mets = Some ''demetsiiify.mets''
   \<and> exception_handler ex_job ex_exc_mets
       = Inr (ex_job\<lparr>meta := [''type'' \<mapsto> PStr ''demetsiiify.mets.MetsImportError'',
                                ''message'' \<mapsto> PStr ''no structMap'']\<rparr>)
   \<and> status ex_failed_job = ''failed''
   \<and> dom (job_status_dict ex_world ex_failed_job) = {''id'', ''status'', ''traceback''}
   \<and> job_status_dict ex_world ex_failed_job ''traceback''
       = Some (PStr ''Traceback (most recent call last): ...'')"
  using exception_handler_descriptor [of ex_exc "PStr ''bad METS''" "[]" ex_job]
    exception_handler_descriptor [of ex_exc_mets "PStr ''no structMap''" "[PInt 3]" ex_job]
  by (simp add: ex_exc_def ex_exc_mets_def ex_failed_job_def)

text \<open>
  C4 as stated fails in its last part: a started job whose metadata has an entry
  named \<open>position\<close> carries that entry in its status object.
\<close>

theorem started_status_with_position:
  "status (ex_job\<lparr>status := ''started'', meta := [''position'' \<mapsto> PInt 7]\<rparr>) \<noteq> ''queued''
   \<and> job_status_dict ex_world (ex_job\<lparr>status := ''started'', meta := [''position'' \<mapsto> PInt 7]\<rparr>)
        ''position'' = Some (PInt 7)"
  by (simp add: ex_job_def job_status_dict_def)

text \<open>
  C4, amended: the status of a queued job has a \<open>position\<close> field, whatever the job's
  metadata holds. When the job's ID is in the queue's ID list, it is the zero-based
  index of the first occurrence of the ID; otherwise it is null. For a job that is
  not queued the status computation adds no \<open>position\<close> field of its own: the status
  of a failed job has none, and the status of any other job has exactly the entry
  of that name in the job's metadata, if there is one.
\<close>

theorem job_status_position:
  "(status j = ''queued'' \<and> job_id j \<in> set (job_ids w) \<longrightarrow>
      (\<exists>i. i < length (job_ids w) \<and> job_ids w ! i = job_id j
           \<and> (\<forall>k. k < i \<longrightarrow> job_ids w ! k \<noteq> job_id j)
           \<and> job_status_dict w j ''position'' = Some (PInt (int i))))
   \<and> (status j = ''queued'' \<and> job_id j \<notin> set (job_ids w) \<longrightarrow>
        job_status_dict w j ''position'' = Some PNone)
   \<and> (status j = ''failed'' \<longrightarrow> job_status_dict w j ''position'' = None)
   \<and> (status j \<noteq> ''queued'' \<and> status j \<noteq> ''failed'' \<longrightarrow>
        job_status_dict w j ''position'' = meta j ''position'')"
proof (intro conjI impI)
  assume a: "status j = ''queued'' \<and> job_id j \<in> set (job_ids w)"
  let ?i = "index_of (job_ids w) (job_id j)"
  have "?i < length (job_ids w)" using a by (simp add: index_of_less)
  moreover have "job_ids w ! ?i = job_id j" using a by (simp add: index_of_nth)
  moreover have "\<forall>k. k < ?i \<longrightarrow> job_ids w ! k \<noteq> job_id j" by (simp add: index_of_first)
  moreover have "job_status_dict w j ''position'' = Some (PInt (int ?i))"
    using a by (simp add: position_queued)
  ultimately show "\<exists>i. i < length (job_ids w) \<and> job_ids w ! i = job_id j
           \<and> (\<forall>k. k < i \<longrightarrow> job_ids w ! k \<noteq> job_id j)
           \<and> job_status_dict w j ''position'' = Some (PInt (int i))"
    by blast
next
  assume "status j = ''queued'' \<and> job_id j \<notin> set (job_ids w)"
  then show "job_status_dict w j ''position'' = Some PNone" by (simp add: position_queued)
next
  assume "status j = ''failed''"
  then show "job_status_dict w j ''position'' = None" by (simp add: position_not_queued)
next
  assume "status j \<noteq> ''queued'' \<and> status j \<noteq> ''failed''"
  then show "job_status_dict w j ''position'' = meta j ''position''"
    by (simp add: position_not_queued)
qed

theorem job_status_position_witness:
  "status ex_job = ''queued'' \<and> job_id ex_job \<in> set (job_ids ex_world)
   \<and> job_status_dict ex_world ex_job ''position'' = Some (PInt 1)
   \<and> job_id (ex_job\<lparr>job_id := ''z''\<rparr>) \<notin> set (job_ids ex_world)
   \<and> job_status_dict ex_world (ex_job\<lparr>job_id := ''z''\<rparr>) ''position'' = Some PNone
   \<and> status ex_failed_job = ''failed''
   \<and> job_status_dict ex_world ex_failed_job ''position'' = None
   \<and> status (ex_job\<lparr>status := ''started''\<rparr>) \<noteq> ''queued''
   \<and> status (ex_job\<lparr>status := ''started''\<rparr>) \<noteq> ''failed''
   \<and> job_status_dict ex_world (ex_job\<lparr>status := ''started''\<rparr>) ''position'' = None"
  using job_status_position [of ex_job ex_world]
    job_status_position [of "ex_job\<lparr>job_id := ''z''\<rparr>" ex_world]
    job_status_position [of ex_failed_job ex_world]
    job_status_position [of "ex_job\<lparr>status := ''started''\<rparr>" ex_world]
  by (simp add: ex_job_def ex_world_def ex_failed_job_def job_status_dict_def)

section \<open>Properties of the size parameter\<close>

lemma split_on_no_sep: "c \<notin> set s \<Longrightarrow> split_on c s = [s]"
  by (induction s) auto

lemma split_on_append: "c \<notin> set a \<Longrightarrow> split_on c (a @ c # b) = a # split_on c b"
  by (induction a) auto

lemma split_on_nonempty: "split_on c s \<noteq> []"
  by (induction s) (auto split: list.splits)

lemma comma_not_digit: "\<not> is_digit CHR '',''"
  by (simp add: is_digit_def)

lemma digit_not_space: "is_digit c \<Longrightarrow> \<not> is_space c"
  by (auto simp: is_digit_def is_space_def Let_def)

lemma digit_not_sign: "is_digit c \<Longrightarrow> c \<noteq> CHR ''-'' \<and> c \<noteq> CHR ''+''"
  by (auto simp: is_digit_def)

lemma number_ascii: "is_number s \<Longrightarrow> list_all is_ascii s"
  by (auto simp: is_number_def list_all_iff is_digit_def is_ascii_def Let_def)

lemma number_no_comma: "is_number s \<Longrightarrow> CHR '','' \<notin> set s"
  using comma_not_digit by (auto simp: is_number_def list_all_iff)

lemma dropWhile_keep: "xs \<noteq> [] \<Longrightarrow> \<not> P (hd xs) \<Longrightarrow> dropWhile P xs = xs"
  by (cases xs) auto

lemma strip_number: "is_number s \<Longrightarrow> strip s = s"
proof -
  assume n: "is_number s"
  then obtain d ds where s: "s = d # ds" by (cases s) (auto simp: is_number_def)
  with n have d: "\<not> is_space d" by (simp add: is_number_def digit_not_space)
  from n have "is_digit (last s)" by (auto simp: is_number_def list_all_iff)
  then have l: "\<not> is_space (last s)" by (rule digit_not_space)
  have "dropWhile is_space s = s" using s d by simp
  moreover have "hd (rev s) = last s" using s by (simp add: hd_rev)
  then have "dropWhile is_space (rev s) = rev s"
    using l s by (intro dropWhile_keep) auto
  ultimately show ?thesis by (simp add: strip_def)
qed

lemma int_digits_number:
  "list_all is_digit s \<Longrightarrow> int_digits acc s = Some (foldl (\<lambda>a c. a * 10 + digit_val c) acc s)"
  by (induction s arbitrary: acc) auto

lemma py_int_number: "is_number s \<Longrightarrow> py_int tr s = Inr (decimal_value s)"
proof -
  assume n: "is_number s"
  then obtain d ds where s: "s = d # ds" by (cases s) (auto simp: is_number_def)
  with n have d: "is_digit d" and ds: "list_all is_digit ds" by (auto simp: is_number_def)
  have "int_unsigned s = Some (decimal_value s)"
    using d ds s by (simp add: int_unsigned_def int_digits_number decimal_value_def)
  then show ?thesis
    using strip_number[OF n] s digit_not_sign[OF d] number_ascii[OF n] by (simp add: py_int_def)
qed


lemma endswith_comma: "endswith (w @ '','') '',''"
  by (simp add: endswith_def)

lemma number_not_endswith_comma: "is_number h \<Longrightarrow> \<not> endswith (a @ h) '',''"
proof -
  assume n: "is_number h"
  then have "h \<noteq> []" by (simp add: is_number_def)
  then have l: "last (a @ h) = last h" by simp
  from n have "is_digit (last h)" by (auto simp: is_number_def list_all_iff)
  then have ne: "last (a @ h) \<noteq> CHR '',''" using l comma_not_digit by auto
  show ?thesis
  proof
    assume "endswith (a @ h) '',''"
    then have "drop (length (a @ h) - 1) (a @ h) = '',''" by (simp add: endswith_def)
    moreover have "a @ h \<noteq> []" using \<open>h \<noteq> []\<close> by simp
    ultimately have "last (a @ h) = CHR '',''"
      by (metis last_drop last.simps length_greater_0_conv diff_less zero_less_one)
    with ne show False by simp
  qed
qed

lemma number_not_startswith_comma: "is_number w \<Longrightarrow> \<not> startswith (w @ b) '',''"
  using comma_not_digit by (cases w) (auto simp: startswith_def is_number_def)

lemma number_not_keyword: "is_number w \<Longrightarrow> w @ b \<noteq> ''full'' \<and> w @ b \<noteq> ''max''"
  by (cases w) (auto simp: is_number_def is_digit_def)

lemma resolve_full: "resolve_size tr ''full'' = Inr (None, None)"
  by (simp add: resolve_size_def)

lemma resolve_max: "resolve_size tr ''max'' = Inr (None, None)"
  by (simp add: resolve_size_def)

lemma resolve_width:
  assumes "is_number w"
  shows "resolve_size tr (w @ '','') = Inr (Some (decimal_value w), None)"
proof -
  have "split_on CHR '','' (w @ '','') = [w, []]"
    using split_on_append[OF number_no_comma[OF assms], of "[]"] by simp
  moreover have "w \<noteq> []" using assms by (simp add: is_number_def)
  ultimately have "filter (\<lambda>v. v \<noteq> []) (split_on CHR '','' (w @ '','')) = [w]" by simp
  then show ?thesis
    using number_not_keyword[OF assms, of "'',''"] endswith_comma[of w] py_int_number[OF assms]
    by (simp add: resolve_size_def)
qed

lemma resolve_height:
  assumes "is_number h"
  shows "resolve_size tr ('','' @ h) = Inr (None, Some (decimal_value h))"
proof -
  have "split_on CHR '','' ('','' @ h) = [[], h]"
    using split_on_no_sep[OF number_no_comma[OF assms]] by simp
  moreover have "h \<noteq> []" using assms by (simp add: is_number_def)
  ultimately have "filter (\<lambda>v. v \<noteq> []) (split_on CHR '','' ('','' @ h)) = [h]" by simp
  moreover have "'','' @ h \<noteq> ''full'' \<and> '','' @ h \<noteq> ''max''" by simp
  moreover have "startswith ('','' @ h) '',''" by (simp add: startswith_def)
  ultimately show ?thesis
    using number_not_endswith_comma[OF assms, of "'',''"] py_int_number[OF assms]
    by (simp add: resolve_size_def)
qed

lemma resolve_both:
  assumes "is_number w" and "is_number h"
  shows "resolve_size tr (w @ '','' @ h) = Inr (Some (decimal_value w), Some (decimal_value h))"
proof -
  have "split_on CHR '','' (w @ '','' @ h) = [w, h]"
    using split_on_append[OF number_no_comma[OF assms(1)], of h]
      split_on_no_sep[OF number_no_comma[OF assms(2)]] by simp
  moreover have "w \<noteq> []" "h \<noteq> []" using assms by (simp_all add: is_number_def)
  ultimately have "filter (\<lambda>v. v \<noteq> []) (split_on CHR '','' (w @ '','' @ h)) = [w, h]" by simp
  then show ?thesis
    using number_not_keyword[OF assms(1), of "'','' @ h"]
      number_not_endswith_comma[OF assms(2), of "w @ '',''"]
      number_not_startswith_comma[OF assms(1), of "'','' @ h"]
      py_int_number[OF assms(1)] py_int_number[OF assms(2)]
    by (simp add: resolve_size_def)
qed

text \<open>
  C8: \<open>full\<close> and \<open>max\<close> resolve to no resize parameters; for decimal numbers \<open>w\<close> and
  \<open>h\<close>, the size \<open>w,\<close> resolves to the width \<open>w\<close> and no height, \<open>,h\<close> to the height
  \<open>h\<close> and no width, and \<open>w,h\<close> to both.
\<close>

theorem resolve_size_grammar:
  "resolve_size tr ''full'' = Inr (None, None)
   \<and> resolve_size tr ''max'' = Inr (None, None)
   \<and> (is_number w \<longrightarrow> resolve_size tr (w @ '','') = Inr (Some (decimal_value w), None))
   \<and> (is_number h \<longrightarrow> resolve_size tr ('','' @ h) = Inr (None, Some (decimal_value h)))
   \<and> (is_number w \<and> is_number h \<longrightarrow>
        resolve_size tr (w @ '','' @ h) = Inr (Some (decimal_value w), Some (decimal_value h)))"
  using resolve_width[of w] resolve_height[of h] resolve_both[of w h]
  by (simp add: resolve_full resolve_max)

theorem resolve_size_grammar_witness:
  "is_number ''300'' \<and> is_number ''150''
   \<and> resolve_size ex_to_ascii ''300,'' = Inr (Some 300, None)
   \<and> resolve_size ex_to_ascii '',150'' = Inr (None, Some 150)
   \<and> resolve_size ex_to_ascii ''300,150'' = Inr (Some 300, Some 150)
   \<and> resolve_size ex_to_ascii ''max'' = Inr (None, None)"
  using resolve_size_grammar [of ex_to_ascii "''300''" "''150''"]
  by (simp add: is_number_def is_digit_def decimal_value_def digit_val_def)

section \<open>Properties of the image endpoint\<close>

lemma get_image_unsupported:
  "region \<noteq> ''full'' \<or> rotation \<noteq> ''0'' \<or> (quality \<noteq> ''default'' \<and> quality \<noteq> ''native'')
   \<Longrightarrow> get_image images url_of tm tr i region sz rotation quality fmt = abort 501"
  by (auto simp: get_image_def)

lemma get_image_supported:
  "get_image images url_of tm tr i ''full'' sz ''0'' quality fmt =
     (if quality = ''default'' \<or> quality = ''native'' then
        (case images i of
           None \<Rightarrow> abort 404
         | Some img \<Rightarrow>
             (case resolve_size tr sz of
                Inl err \<Rightarrow> abort 500
              | Inr (w, h) \<Rightarrow>
                  (case url_of img \<lparr>format_kw = tm (''.'' @ fmt), width = w, height = h\<rparr> of
                     None \<Rightarrow> abort 501
                   | Some url \<Rightarrow> cors ''*'' (redirect url 303))))
      else abort 501)"
  by (simp add: get_image_def)

text \<open>
  C7: a request outside the supported subset is answered 501 whatever the image store
  holds; a 404 or a 303 is only ever the answer to a request inside the subset. Inside
  it, an unknown image ID is answered 404, and for a known image whose size resolves,
  the answer is 501 when no backing URL resolves and otherwise a 303 redirect to that
  URL.
\<close>

theorem get_image_gate:
  "(region \<noteq> ''full'' \<or> rotation \<noteq> ''0'' \<or> (quality \<noteq> ''default'' \<and> quality \<noteq> ''native'')
      \<longrightarrow> get_image images url_of tm tr i region sz rotation quality fmt = abort 501)
   \<and> (status_code (get_image images url_of tm tr i region sz rotation quality fmt) \<in> {303, 404}
      \<longrightarrow> region = ''full'' \<and> rotation = ''0'' \<and> (quality = ''default'' \<or> quality = ''native''))
   \<and> (region = ''full'' \<and> rotation = ''0'' \<and> (quality = ''default'' \<or> quality = ''native'')
      \<longrightarrow> (images i = None
             \<longrightarrow> get_image images url_of tm tr i region sz rotation quality fmt = abort 404)
        \<and> (\<forall>img w h. images i = Some img \<and> resolve_size tr sz = Inr (w, h) \<longrightarrow>
              (case url_of img \<lparr>format_kw = tm (''.'' @ fmt), width = w, height = h\<rparr> of
                 None \<Rightarrow> get_image images url_of tm tr i region sz rotation quality fmt = abort 501
               | Some url \<Rightarrow>
                   status_code (get_image images url_of tm tr i region sz rotation quality fmt) = 303
                   \<and> map_of (headers (get_image images url_of tm tr i region sz rotation quality fmt))
                         ''Location'' = Some url)))"
proof (intro conjI impI)
  assume "region \<noteq> ''full'' \<or> rotation \<noteq> ''0'' \<or> (quality \<noteq> ''default'' \<and> quality \<noteq> ''native'')"
  then show "get_image images url_of tm tr i region sz rotation quality fmt = abort 501"
    by (rule get_image_unsupported)
next
  assume c: "status_code (get_image images url_of tm tr i region sz rotation quality fmt) \<in> {303, 404}"
  have "\<not> (region \<noteq> ''full'' \<or> rotation \<noteq> ''0'' \<or> (quality \<noteq> ''default'' \<and> quality \<noteq> ''native''))"
  proof
    assume "region \<noteq> ''full'' \<or> rotation \<noteq> ''0'' \<or> (quality \<noteq> ''default'' \<and> quality \<noteq> ''native'')"
    then have "get_image images url_of tm tr i region sz rotation quality fmt = abort 501"
      by (rule get_image_unsupported)
    with c show False by (simp add: abort_def)
  qed
  then show "region = ''full''" "rotation = ''0''" "quality = ''default'' \<or> quality = ''native''"
    by auto
next
  assume "region = ''full'' \<and> rotation = ''0'' \<and> (quality = ''default'' \<or> quality = ''native'')"
    and "images i = None"
  then show "get_image images url_of tm tr i region sz rotation quality fmt = abort 404"
    by (auto simp: get_image_supported)
next
  assume "region = ''full'' \<and> rotation = ''0'' \<and> (quality = ''default'' \<or> quality = ''native'')"
  then show "\<forall>img w h. images i = Some img \<and> resolve_size tr sz = Inr (w, h) \<longrightarrow>
              (case url_of img \<lparr>format_kw = tm (''.'' @ fmt), width = w, height = h\<rparr> of
                 None \<Rightarrow> get_image images url_of tm tr i region sz rotation quality fmt = abort 501
               | Some url \<Rightarrow>
                   status_code (get_image images url_of tm tr i region sz rotation quality fmt) = 303
                   \<and> map_of (headers (get_image images url_of tm tr i region sz rotation quality fmt))
                         ''Location'' = Some url)"
    by (auto simp: get_image_supported cors_def redirect_def split: option.splits)
qed

theorem get_image_gate_witness:
  "get_image ex_images ex_get_image_url ex_types_map ex_to_ascii ''img1'' ''100,100,50,50'' ''max'' ''0'' ''default'' ''jpg''
     = abort 501
   \<and> get_image ex_images ex_get_image_url ex_types_map ex_to_ascii ''nope'' ''100,100,50,50'' ''max'' ''0'' ''default'' ''jpg''
     = abort 501
   \<and> ex_images ''nope'' = None
   \<and> get_image ex_images ex_get_image_url ex_types_map ex_to_ascii ''nope'' ''full'' ''max'' ''0'' ''default'' ''jpg''
     = abort 404
   \<and> ex_images ''img1'' = Some ''http://images.example.org/img1''
   \<and> resolve_size ex_to_ascii ''max'' = Inr (None, None)
   \<and> status_code (get_image ex_images ex_get_image_url ex_types_map ex_to_ascii ''img1'' ''full'' ''max'' ''0''
        ''native'' ''jpg'') = 303
   \<and> get_image ex_images ex_get_image_url ex_types_map ex_to_ascii ''img1'' ''full'' ''max'' ''0'' ''native'' ''tif''
     = abort 501"
  using get_image_gate [of "''100,100,50,50''" "''0''" "''default''" ex_images ex_get_image_url ex_types_map ex_to_ascii
      "''img1''" "''max''" "''jpg''"]
    get_image_gate [of "''full''" "''0''" "''default''" ex_images ex_get_image_url ex_types_map ex_to_ascii
      "''nope''" "''max''" "''jpg''"]
    get_image_gate [of "''full''" "''0''" "''native''" ex_images ex_get_image_url ex_types_map ex_to_ascii
      "''img1''" "''max''" "''jpg''"]
  by (simp add: get_image_def ex_images_def ex_get_image_url_def ex_types_map_def
      resolve_size_def abort_def cors_def redirect_def)

lemma no_comma_raises:
  assumes "sz \<noteq> ''full''" and "sz \<noteq> ''max''" and "CHR '','' \<notin> set sz"
  shows "\<exists>e. resolve_size tr sz = Inl e"
proof -
  have sp: "split_on CHR '','' sz = [sz]" using assms(3) by (rule split_on_no_sep)
  have ne: "\<not> endswith sz '',''"
  proof
    assume "endswith sz '',''"
    then have "1 \<le> length sz" and "drop (length sz - 1) sz = '',''" by (simp_all add: endswith_def)
    then have "CHR '','' \<in> set (drop (length sz - 1) sz)" by simp
    then have "CHR '','' \<in> set sz" by (rule in_set_dropD)
    with assms(3) show False by simp
  qed
  have ns: "\<not> startswith sz '',''"
    using assms(3) by (cases sz) (auto simp: startswith_def)
  show ?thesis
  proof (cases "sz = []")
    case True
    then show ?thesis by (simp add: resolve_size_def endswith_def startswith_def)
  next
    case False
    then have "filter (\<lambda>v. v \<noteq> []) (split_on CHR '','' sz) = [sz]" using sp by simp
    then show ?thesis
      using assms(1,2) ne ns
      by (cases "py_int tr sz") (auto simp: resolve_size_def)
  qed
qed

text \<open>
  C9, amended: for a request inside the supported subset on a known image, a size
  whose conversion raises is answered 500, and every size without a comma other
  than \<open>full\<close> and \<open>max\<close> is such a size; for no size at all is the answer a 4xx.
\<close>

theorem get_image_malformed_size:
  "(quality = ''default'' \<or> quality = ''native'') \<and> images i = Some img \<longrightarrow>
     (\<forall>e. resolve_size tr sz = Inl e \<longrightarrow>
        get_image images url_of tm tr i ''full'' sz ''0'' quality fmt = abort 500)
     \<and> (sz \<noteq> ''full'' \<and> sz \<noteq> ''max'' \<and> CHR '','' \<notin> set sz \<longrightarrow>
        get_image images url_of tm tr i ''full'' sz ''0'' quality fmt = abort 500)
     \<and> status_code (get_image images url_of tm tr i ''full'' sz ''0'' quality fmt) \<in> {303, 500, 501}"
proof (intro impI conjI allI)
  fix e
  assume "(quality = ''default'' \<or> quality = ''native'') \<and> images i = Some img"
    and "resolve_size tr sz = Inl e"
  then show "get_image images url_of tm tr i ''full'' sz ''0'' quality fmt = abort 500"
    by (auto simp: get_image_supported)
next
  assume a: "(quality = ''default'' \<or> quality = ''native'') \<and> images i = Some img"
    and "sz \<noteq> ''full'' \<and> sz \<noteq> ''max'' \<and> CHR '','' \<notin> set sz"
  then obtain e where "resolve_size tr sz = Inl e" using no_comma_raises by blast
  with a show "get_image images url_of tm tr i ''full'' sz ''0'' quality fmt = abort 500"
    by (auto simp: get_image_supported)
next
  assume "(quality = ''default'' \<or> quality = ''native'') \<and> images i = Some img"
  then show "status_code (get_image images url_of tm tr i ''full'' sz ''0'' quality fmt) \<in> {303, 500, 501}"
    by (auto simp: get_image_supported abort_def cors_def redirect_def
        split: sum.splits option.splits prod.splits)
qed

text \<open>
  C9 as stated fails: the non-numeric size \<open>abc\<close> on a known image is answered 500.
\<close>

theorem get_image_size_abc:
  "get_image ex_images ex_get_image_url ex_types_map ex_to_ascii ''img1'' ''full'' ''abc'' ''0'' ''default'' ''jpg''
     = abort 500
   \<and> status_code (get_image ex_images ex_get_image_url ex_types_map ex_to_ascii ''img1'' ''full'' ''abc'' ''0''
        ''default'' ''jpg'') = 500"
  by (simp add: get_image_def ex_images_def resolve_size_def endswith_def startswith_def
      py_int_def is_ascii_def strip_def is_space_def int_unsigned_def is_digit_def abort_def)

theorem get_image_malformed_size_witness:
  "ex_images ''img1'' = Some ''http://images.example.org/img1''
   \<and> resolve_size ex_to_ascii ''abc'' = Inl ValueError
   \<and> CHR '','' \<notin> set ''300''
   \<and> get_image ex_images ex_get_image_url ex_types_map ex_to_ascii ''img1'' ''full'' ''300'' ''0'' ''default'' ''jpg''
       = abort 500
   \<and> get_image ex_images ex_get_image_url ex_types_map ex_to_ascii ''img1'' ''full'' ''abc'' ''0'' ''default'' ''jpg''
       = abort 500"
  using get_image_malformed_size [of "''default''" ex_images "''img1''" "''http://images.example.org/img1''"
      ex_to_ascii "''300''" ex_get_image_url ex_types_map "''jpg''"]
    get_image_malformed_size [of "''default''" ex_images "''img1''" "''http://images.example.org/img1''"
      ex_to_ascii "''abc''" ex_get_image_url ex_types_map "''jpg''"]
  by (simp add: ex_images_def resolve_size_def endswith_def startswith_def
      py_int_def is_ascii_def strip_def is_space_def int_unsigned_def is_digit_def)

section \<open>Properties of the live stream\<close>

lemma ex_finished_status_eq:
  "job_status_dict w ex_finished_job = ex_finished_status"
  by (auto simp: job_status_dict_def ex_finished_job_def ex_finished_status_def map_add_def fun_eq_iff)

lemma ex_get_finished: "get_job_status ex_world_finished (JobId ''j1'') = Some ex_finished_status"
  by (simp add: get_job_status_def fetch_job_def ex_world_finished_def ex_finished_status_eq)

lemma ex_get_expired: "get_job_status ex_world_expired (JobId ''j1'') = None"
  by (simp add: get_job_status_def fetch_job_def ex_world_expired_def)


lemma split_on_length: "length (split_on c (pre @ c # i)) > 1"
proof (induction pre)
  case Nil
  then show ?case using split_on_nonempty[of c i] by (cases "split_on c i") auto
next
  case (Cons x xs)
  then show ?case by (cases "split_on c (xs @ c # i)") auto
qed

lemma split_on_last: "c \<notin> set i \<Longrightarrow> last (split_on c (pre @ c # i)) = i"
proof (induction pre)
  case Nil
  then show ?case by (simp add: split_on_no_sep)
next
  case (Cons x xs)
  obtain p ps where ps: "split_on c (xs @ c # i) = p # ps" "ps \<noteq> []"
    using split_on_length[of c xs i] by (cases "split_on c (xs @ c # i)") auto
  with Cons show ?case by auto
qed

lemma cur_id_chan: "CHR '':'' \<notin> set i \<Longrightarrow> last (split_on CHR '':'' (chan i)) = i"
  using split_on_last[of "CHR '':''" i "''__keyspace@0__:rq:job''"] by (simp add: chan_def)

lemma step1:
  "gen_step ''j1'' \<lparr>last_status = None, last_id = None\<rparr> (chan ''j1'', ex_world_finished)
     = Inr (\<lparr>last_status = Some ex_finished_status, last_id = Some ''j1''\<rparr>, Some (Some ex_finished_status))"
  by (simp add: gen_step_def Let_def cur_id_chan ex_get_finished)

lemma step2:
  "gen_step ''j1'' \<lparr>last_status = Some ex_finished_status, last_id = Some ''j1''\<rparr>
      (chan ''j2'', ex_world_finished)
     = Inr (\<lparr>last_status = Some ex_finished_status, last_id = Some ''j2''\<rparr>, None)"
  by (simp add: gen_step_def Let_def cur_id_chan ex_get_finished)

lemma step3:
  "gen_step ''j1'' \<lparr>last_status = Some ex_finished_status, last_id = Some ''j2''\<rparr>
      (chan ''j3'', ex_world_expired)
     = Inr (\<lparr>last_status = None, last_id = Some ''j3''\<rparr>, Some None)"
  by (simp add: gen_step_def Let_def cur_id_chan ex_get_expired)

lemma gen_step_cases:
  "gen_step t s m = Inr (s', ev) \<Longrightarrow>
     (ev = None \<and> last_status s' = last_status s)
     \<or> (ev = Some (get_job_status (snd m) (JobId t))
        \<and> get_job_status (snd m) (JobId t) \<noteq> last_status s
        \<and> last_status s' = get_job_status (snd m) (JobId t))"
  by (auto simp: gen_step_def Let_def split: if_splits option.splits sum.splits bool.splits)

lemma gen_loop_events:
  "distinct_adj (fst (gen_loop t s ms))
   \<and> (fst (gen_loop t s ms) \<noteq> [] \<longrightarrow> hd (fst (gen_loop t s ms)) \<noteq> last_status s)"
proof (induction ms arbitrary: s)
  case Nil
  then show ?case by simp
next
  case (Cons m ms)
  show ?case
  proof (cases "gen_step t s m")
    case (Inl e)
    then show ?thesis by simp
  next
    case (Inr p)
    obtain s' ev where p: "p = (s', ev)" by (cases p)
    obtain evs r where l: "gen_loop t s' ms = (evs, r)" by (cases "gen_loop t s' ms")
    from Cons.IH[of s'] l have ih: "distinct_adj evs" "evs \<noteq> [] \<longrightarrow> hd evs \<noteq> last_status s'"
      by simp_all
    from gen_step_cases[of t s m s' ev] Inr p
    consider (quiet) "ev = None" "last_status s' = last_status s"
      | (emit) st where "ev = Some st" "st \<noteq> last_status s" "last_status s' = st"
      by auto
    then show ?thesis
    proof cases
      case quiet
      then show ?thesis using Inr p l ih by simp
    next
      case emit
      then show ?thesis using Inr p l ih by (auto simp: distinct_adj_Cons)
    qed
  qed
qed

lemma gen_loop_last_status:
  "snd (gen_loop t s ms) = Inr s' \<Longrightarrow>
     last_status s' = (if fst (gen_loop t s ms) = [] then last_status s
                       else last (fst (gen_loop t s ms)))"
proof (induction ms arbitrary: s)
  case Nil
  then show ?case by simp
next
  case (Cons m ms)
  show ?case
  proof (cases "gen_step t s m")
    case (Inl e)
    with Cons.prems show ?thesis by simp
  next
    case (Inr p)
    obtain s1 ev where p: "p = (s1, ev)" by (cases p)
    obtain evs r where l: "gen_loop t s1 ms = (evs, r)" by (cases "gen_loop t s1 ms")
    from Cons.prems Inr p l have r: "r = Inr s'" by simp
    from Cons.IH[of s1] l r
    have ih: "last_status s' = (if evs = [] then last_status s1 else last evs)" by simp
    from gen_step_cases[of t s m s1 ev] Inr p
    consider (quiet) "ev = None" "last_status s1 = last_status s"
      | (emit) st where "ev = Some st" "st \<noteq> last_status s" "last_status s1 = st"
      by auto
    then show ?thesis
    proof cases
      case quiet
      then show ?thesis using Inr p l ih by simp
    next
      case emit
      then show ?thesis using Inr p l ih by simp
    qed
  qed
qed

text \<open>
  C5: the statuses the stream yields never contain two equal neighbours. A status is
  yielded only in an iteration that recomputed it and found it different from
  \<open>last_status\<close>, which is then set to it; and while the generator runs,
  \<open>last_status\<close> is the last status yielded (\<open>None\<close> before the first).
\<close>

theorem gen_no_repeated_event:
  "distinct_adj (fst (gen task_id msgs))
   \<and> (\<forall>s s' st. gen_step task_id s msg = Inr (s', Some st) \<longrightarrow>
         st = get_job_status (snd msg) (JobId task_id) \<and> st \<noteq> last_status s \<and> last_status s' = st)
   \<and> (\<forall>s'. snd (gen task_id msgs) = Inr s' \<longrightarrow>
         last_status s' = (if fst (gen task_id msgs) = [] then None else last (fst (gen task_id msgs))))"
proof (intro conjI allI impI)
  show "distinct_adj (fst (gen task_id msgs))"
    using gen_loop_events[of task_id _ msgs] by (simp add: gen_def)
next
  fix s s' st
  assume a: "gen_step task_id s msg = Inr (s', Some st)"
  from gen_step_cases[OF a]
  show "st = get_job_status (snd msg) (JobId task_id)" "st \<noteq> last_status s" "last_status s' = st"
    by auto
next
  fix s'
  assume "snd (gen task_id msgs) = Inr s'"
  then show "last_status s' = (if fst (gen task_id msgs) = [] then None else last (fst (gen task_id msgs)))"
    using gen_loop_last_status[of task_id _ msgs s'] by (simp add: gen_def)
qed

text \<open>
  C6 as stated fails: after the status of the finished job has been yielded, the
  generator takes the next two messages as well, yields another event for the second
  (the job has expired by then) and is still waiting for messages.
\<close>

theorem gen_listens_after_terminal:
  "gen ''j1'' [(chan ''j1'', ex_world_finished), (chan ''j2'', ex_world_finished),
               (chan ''j3'', ex_world_expired)]
     = ([Some ex_finished_status, None], Inr \<lparr>last_status = None, last_id = Some ''j3''\<rparr>)
   \<and> ex_finished_status ''status'' = Some (PStr ''finished'')"
  by (simp add: gen_def step1 step2 step3) (simp add: ex_finished_status_def)


theorem gen_no_repeated_event_witness:
  "gen_step ''j1'' \<lparr>last_status = None, last_id = None\<rparr> (chan ''j1'', ex_world_finished)
     = Inr (\<lparr>last_status = Some ex_finished_status, last_id = Some ''j1''\<rparr>, Some (Some ex_finished_status))
   \<and> Some ex_finished_status \<noteq> last_status \<lparr>last_status = None, last_id = None\<rparr>
   \<and> gen ''j1'' [(chan ''j1'', ex_world_finished), (chan ''j2'', ex_world_finished),
               (chan ''j3'', ex_world_expired)]
       = ([Some ex_finished_status, None], Inr \<lparr>last_status = None, last_id = Some ''j3''\<rparr>)
   \<and> distinct_adj [Some ex_finished_status, None]"
  using gen_no_repeated_event [of "''j1''" "[(chan ''j1'', ex_world_finished), (chan ''j2'', ex_world_finished),
               (chan ''j3'', ex_world_expired)]" "(chan ''j1'', ex_world_finished)"]
  by (simp add: gen_def step1 step2 step3)

lemma gen_step_terminal:
  assumes "last_status s = Some d"
    and "d ''status'' = Some (PStr ''finished'') \<or> d ''status'' = Some (PStr ''failed'')"
    and "get_job_status (snd m) (JobId t) = Some d"
  shows "\<exists>s'. gen_step t s m = Inr (s', None) \<and> last_status s' = Some d"
  using assms by (auto simp: gen_step_def Let_def)

text \<open>
  C6, amended: once a terminal status (finished or failed) is the last status
  yielded, the generator does not end: it takes every further message, yields
  nothing for as long as the recomputed status is still that status, and is then
  waiting for the next message.
\<close>

theorem gen_after_terminal:
  "last_status s = Some d
   \<and> (d ''status'' = Some (PStr ''finished'') \<or> d ''status'' = Some (PStr ''failed''))
   \<and> (\<forall>m \<in> set msgs. get_job_status (snd m) (JobId t) = Some d)
   \<longrightarrow> (\<exists>s'. gen_loop t s msgs = ([], Inr s') \<and> last_status s' = Some d)"
proof (induction msgs arbitrary: s)
  case Nil
  then show ?case by simp
next
  case (Cons m ms)
  show ?case
  proof
    assume a: "last_status s = Some d
      \<and> (d ''status'' = Some (PStr ''finished'') \<or> d ''status'' = Some (PStr ''failed''))
      \<and> (\<forall>m \<in> set (m # ms). get_job_status (snd m) (JobId t) = Some d)"
    then obtain s1 where s1: "gen_step t s m = Inr (s1, None)" "last_status s1 = Some d"
      using gen_step_terminal[of s d m t] by auto
    with a Cons.IH[of s1] obtain s' where "gen_loop t s1 ms = ([], Inr s')" "last_status s' = Some d"
      by auto
    with s1 show "\<exists>s'. gen_loop t s (m # ms) = ([], Inr s') \<and> last_status s' = Some d" by simp
  qed
qed


theorem gen_after_terminal_witness:
  "ex_finished_status ''status'' = Some (PStr ''finished'')
   \<and> get_job_status ex_world_finished (JobId ''j1'') = Some ex_finished_status
   \<and> gen_loop ''j1'' \<lparr>last_status = Some ex_finished_status, last_id = Some ''j1''\<rparr>
        [(chan ''j2'', ex_world_finished), (chan ''j2'', ex_world_finished)]
       = ([], Inr \<lparr>last_status = Some ex_finished_status, last_id = Some ''j2''\<rparr>)"
proof -
  have st: "ex_finished_status ''status'' = Some (PStr ''finished'')"
    by (simp add: ex_finished_status_def)
  have step2': "gen_step ''j1'' \<lparr>last_status = Some ex_finished_status, last_id = Some ''j2''\<rparr>
      (chan ''j2'', ex_world_finished)
     = Inr (\<lparr>last_status = Some ex_finished_status, last_id = Some ''j2''\<rparr>, None)"
    by (simp add: gen_step_def Let_def cur_id_chan st)
  show ?thesis
    using gen_after_terminal [of "\<lparr>last_status = Some ex_finished_status, last_id = Some ''j1''\<rparr>"
      ex_finished_status "[(chan ''j2'', ex_world_finished), (chan ''j2'', ex_world_finished)]" "''j1''"]
    by (simp add: st ex_get_finished step2 step2')
qed

section \<open>Properties of the import endpoint\<close>

lemma api_import_url:
  "d ''url'' = Some (PStr url) \<Longrightarrow> api_import e w (PDict d) = import_mets e w (import_target (utf8_decode e) url)"
  by (simp add: api_import_def)

lemma import_mets_probe_fails:
  "\<not> probe_ok (probe e t) \<Longrightarrow> import_mets e w t = (no_mets_response, w)"
  by (simp add: import_mets_def)

lemma import_mets_raises:
  "probe_ok (probe e (Some u)) \<Longrightarrow> get_basic_info e u = Inl err
     \<Longrightarrow> import_mets e w (Some u) = (handle_error e err, w)"
  by (simp add: import_mets_def)

lemma get_job_status_enqueued:
  "enqueue w jid u m = (j, w') \<Longrightarrow> get_job_status w' (JobId jid) = Some (job_status_dict w' j)"
  by (auto simp: enqueue_def Let_def get_job_status_def fetch_job_def)

lemma import_mets_enqueues:
  assumes "probe_ok (probe e (Some u))" and "get_basic_info e u = Inr m"
  shows "import_mets e w (Some u) =
           (\<lparr>status_code = 202,
             body = PDict (job_status_dict (snd (enqueue w (new_job_id e) u m))
                             (fst (enqueue w (new_job_id e) u m))),
             headers = [(''Location'', server_url e @ ''/api/tasks/'' @ new_job_id e)]\<rparr>,
            snd (enqueue w (new_job_id e) u m))"
proof -
  obtain j w' where en: "enqueue w (new_job_id e) u m = (j, w')"
    by (cases "enqueue w (new_job_id e) u m")
  then have jid: "job_id j = new_job_id e" by (auto simp: enqueue_def Let_def)
  show ?thesis
    using assms en jid get_job_status_enqueued[OF en]
    by (simp add: import_mets_def url_for_task_status_def)
qed

text \<open>
  C3, amended: for a request whose body has a string \<open>url\<close>, with the target URL of
  lines 206-207: if the probe of the target fails (it raises, or the response has an
  error status), the answer is 400 and the shared state is unchanged, so no job is
  enqueued; if the probe succeeds but reading the basic information of the document
  raises, the answer is 500 and again nothing is enqueued; if the probe succeeds and
  the basic information is read, one queued job for the target URL is appended to
  the queue, and the answer is 202 with that job's status as body and a \<open>Location\<close>
  header that is the URL of the status endpoint for the job, which answers with the
  same status.
\<close>

theorem api_import_outcomes:
  "d ''url'' = Some (PStr url) \<longrightarrow>
     (\<not> probe_ok (probe e (import_target (utf8_decode e) url)) \<longrightarrow>
        status_code (fst (api_import e w (PDict d))) = 400 \<and> snd (api_import e w (PDict d)) = w)
     \<and> (\<forall>u err. import_target (utf8_decode e) url = Some u \<and> probe_ok (head e u) \<and> get_basic_info e u = Inl err \<longrightarrow>
          status_code (fst (api_import e w (PDict d))) = 500 \<and> snd (api_import e w (PDict d)) = w)
     \<and> (\<forall>u m. import_target (utf8_decode e) url = Some u \<and> probe_ok (head e u) \<and> get_basic_info e u = Inr m \<longrightarrow>
          (\<exists>j w'. api_import e w (PDict d) =
                     (\<lparr>status_code = 202, body = PDict (job_status_dict w' j),
                       headers = [(''Location'', server_url e @ ''/api/tasks/'' @ job_id j)]\<rparr>, w')
                 \<and> j = \<lparr>job_id = new_job_id e, status = ''queued'', meta = m,
                         exc_info = PNone, result = PNone, args = [u]\<rparr>
                 \<and> queue_jobs w' (job_id j) = Some j
                 \<and> job_ids w' = job_ids w @ [job_id j]
                 \<and> api_task_status w' (job_id j) = jsonify (PDict (job_status_dict w' j))))"
proof (intro impI conjI allI)
  assume d: "d ''url'' = Some (PStr url)" and "\<not> probe_ok (probe e (import_target (utf8_decode e) url))"
  then show "status_code (fst (api_import e w (PDict d))) = 400" "snd (api_import e w (PDict d)) = w"
    by (simp_all add: api_import_url import_mets_probe_fails no_mets_response_def)
next
  fix u err
  assume d: "d ''url'' = Some (PStr url)"
    and a: "import_target (utf8_decode e) url = Some u \<and> probe_ok (head e u) \<and> get_basic_info e u = Inl err"
  then have "api_import e w (PDict d) = (handle_error e err, w)"
    using import_mets_raises[of e u err w] by (simp add: api_import_url probe_def)
  then show "status_code (fst (api_import e w (PDict d))) = 500" "snd (api_import e w (PDict d)) = w"
    by (simp_all add: handle_error_def)
next
  fix u m
  assume d: "d ''url'' = Some (PStr url)"
    and a: "import_target (utf8_decode e) url = Some u \<and> probe_ok (head e u) \<and> get_basic_info e u = Inr m"
  let ?j = "fst (enqueue w (new_job_id e) u m)" and ?w' = "snd (enqueue w (new_job_id e) u m)"
  have j: "?j = \<lparr>job_id = new_job_id e, status = ''queued'', meta = m,
                         exc_info = PNone, result = PNone, args = [u]\<rparr>"
    by (simp add: enqueue_def Let_def)
  have 1: "api_import e w (PDict d) =
             (\<lparr>status_code = 202, body = PDict (job_status_dict ?w' ?j),
               headers = [(''Location'', server_url e @ ''/api/tasks/'' @ job_id ?j)]\<rparr>, ?w')"
    using d a import_mets_enqueues[of e u m w] by (simp add: api_import_url probe_def j)
  have 2: "queue_jobs ?w' (job_id ?j) = Some ?j" by (simp add: enqueue_def Let_def)
  have 3: "job_ids ?w' = job_ids w @ [job_id ?j]" by (simp add: enqueue_def Let_def)
  have 4: "api_task_status ?w' (job_id ?j) = jsonify (PDict (job_status_dict ?w' ?j))"
    using 2 job_status_dict_nonempty[of ?w' ?j]
    by (simp add: api_task_status_def get_job_status_def fetch_job_def)
  show "\<exists>j w'. api_import e w (PDict d) =
                     (\<lparr>status_code = 202, body = PDict (job_status_dict w' j),
                       headers = [(''Location'', server_url e @ ''/api/tasks/'' @ job_id j)]\<rparr>, w')
                 \<and> j = \<lparr>job_id = new_job_id e, status = ''queued'', meta = m,
                         exc_info = PNone, result = PNone, args = [u]\<rparr>
                 \<and> queue_jobs w' (job_id j) = Some j
                 \<and> job_ids w' = job_ids w @ [job_id j]
                 \<and> api_task_status w' (job_id j) = jsonify (PDict (job_status_dict w' j))"
    using 1 2 3 4 j by blast
qed


lemma ex_targets:
  "import_target dec ''http://example.org/doc.xml'' = Some ''http://example.org/doc.xml''"
  "import_target dec ''http://example.org/page.html'' = Some ''http://example.org/page.html''"
  "import_target dec ''http://example.org/missing.xml'' = Some ''http://example.org/missing.xml''"
  by (simp_all add: import_target_def dfgviewer_match_def dfgviewer_tail_def)

lemma ex_probes:
  "probe_ok (head ex_env ''http://example.org/doc.xml'')"
  "probe_ok (head ex_env ''http://example.org/page.html'')"
  "\<not> probe_ok (head ex_env ''http://example.org/missing.xml'')"
  by (simp_all add: ex_env_def probe_ok_def)

lemma ex_infos:
  "get_basic_info ex_env ''http://example.org/page.html'' = Inl (OtherError ''XMLSyntaxError'')"
  "get_basic_info ex_env ''http://example.org/doc.xml'' =
     Inr [''metsurl'' \<mapsto> PStr ''http://example.org/doc.xml'', ''label'' \<mapsto> PStr ''Doc'',
          ''thumbnail'' \<mapsto> PStr ''http://example.org/1.jpg'',
          ''attribution'' \<mapsto> PDict [''logo'' \<mapsto> PStr ''http://example.org/logo.png'',
                                        ''owner'' \<mapsto> PStr ''Example Library'']]"
  by (simp_all add: get_basic_info_def ex_env_def ex_doc_def)

text \<open>
  C3 as stated fails: the probe of a reachable page that is no METS document
  succeeds, but \<open>_get_basic_info\<close> raises before anything is enqueued, and the answer
  is the error handler's 500.
\<close>

theorem api_import_reachable_not_mets:
  "probe_ok (probe ex_env (import_target (utf8_decode ex_env) ''http://example.org/page.html''))
   \<and> api_import ex_env ex_world (PDict [''url'' \<mapsto> PStr ''http://example.org/page.html''])
       = (handle_error ex_env (OtherError ''XMLSyntaxError''), ex_world)
   \<and> status_code (handle_error ex_env (OtherError ''XMLSyntaxError'')) = 500"
  by (simp add: api_import_def ex_targets probe_def ex_probes import_mets_def ex_infos
      handle_error_def)

theorem api_import_outcomes_witness:
  "\<not> probe_ok (probe ex_env (import_target (utf8_decode ex_env) ''http://example.org/missing.xml''))
   \<and> status_code (fst (api_import ex_env ex_world
         (PDict [''url'' \<mapsto> PStr ''http://example.org/missing.xml'']))) = 400
   \<and> snd (api_import ex_env ex_world
         (PDict [''url'' \<mapsto> PStr ''http://example.org/missing.xml''])) = ex_world
   \<and> status_code (fst (api_import ex_env ex_world
         (PDict [''url'' \<mapsto> PStr ''http://example.org/page.html'']))) = 500
   \<and> probe_ok (head ex_env ''http://example.org/doc.xml'')
   \<and> status_code (fst (api_import ex_env ex_world
         (PDict [''url'' \<mapsto> PStr ''http://example.org/doc.xml'']))) = 202
   \<and> headers (fst (api_import ex_env ex_world
         (PDict [''url'' \<mapsto> PStr ''http://example.org/doc.xml''])))
       = [(''Location'', ''http://localhost:5000/api/tasks/n1'')]
   \<and> job_ids (snd (api_import ex_env ex_world
         (PDict [''url'' \<mapsto> PStr ''http://example.org/doc.xml'']))) = [''a'', ''b'', ''c'', ''n1'']"
proof -
  have n: "new_job_id ex_env = ''n1''" "server_url ex_env = ''http://localhost:5000''"
    "job_ids ex_world = [''a'', ''b'', ''c'']"
    by (simp_all add: ex_env_def ex_world_def)
  show ?thesis
    using api_import_outcomes [of "[''url'' \<mapsto> PStr ''http://example.org/missing.xml'']"
        "''http://example.org/missing.xml''" ex_env ex_world]
      api_import_outcomes [of "[''url'' \<mapsto> PStr ''http://example.org/page.html'']"
        "''http://example.org/page.html''" ex_env ex_world]
      api_import_outcomes [of "[''url'' \<mapsto> PStr ''http://example.org/doc.xml'']"
        "''http://example.org/doc.xml''" ex_env ex_world]
    by (auto simp: ex_targets probe_def ex_probes ex_infos n)
qed

section \<open>Properties of the DFG-Viewer extraction\<close>




























end
